theory Spec2Isabelle
  imports Main "HOL-Library.Word" "HOL-Library.Sublist"
begin

section \<open>Errors\<close>

text \<open>
  Go's \<open>error\<close> values, one constructor per dynamic type that
  \<open>supervisor/tunnel.go\<close> and \<open>edgediscovery/dial.go\<close> inspect.
  A nil error is \<open>None\<close> of \<open>error option\<close>.

  \<^item> \<open>DialError cause\<close>: \<open>edgediscovery.DialError\<close> (dial.go, lines 57-71).
  \<^item> \<open>unrecoverableError err\<close>: tunnel.go, lines 496-502.
  \<^item> \<open>Wrapped msg err\<close>: what \<open>errors.Wrap\<close> and \<open>errors.Wrapf\<close> of
    \<open>github.com/pkg/errors\<close> return for a non-nil error.
  \<^item> \<open>ErrorString msg\<close>: what \<open>fmt.Errorf\<close> and \<open>errors.New\<close> return, and every
    other error type that no type switch of the sources names.
  \<^item> \<open>IdleTimeoutError\<close>, \<open>TransportError\<close>: the two types of \<open>quic-go\<close>.
  \<^item> \<open>DupConnRegisterTunnelError\<close>, \<open>ServerRegisterTunnelError\<close> (fields \<open>Cause\<close>,
    \<open>Permanent\<close>), \<open>EdgeQuicDialError\<close> (field \<open>Cause\<close>), \<open>ReconnectSignal\<close> (field
    \<open>Delay\<close>, nanoseconds) and the sentinel \<open>context.Canceled\<close>: declared outside
    these two files; the constructors carry the fields the sources read.
\<close>

datatype error =
    DupConnRegisterTunnelError
  | ServerRegisterTunnelError "error option" bool
  | EdgeQuicDialError error
  | ReconnectSignal int
  | IdleTimeoutError
  | TransportError string
  | DialError error
  | unrecoverableError error
  | ContextCanceled
  | Wrapped string error
  | ErrorString string

text \<open>
  The \<open>Error()\<close> and \<open>Unwrap()\<close> methods of the error types that are declared outside
  the two source files are parameters of the model: \<open>errText\<close> gives the text of such a
  value, \<open>quicDialUnwraps\<close> says whether \<open>*connection.EdgeQuicDialError\<close> has an
  \<open>Unwrap\<close> method returning its \<open>Cause\<close>.
\<close>

record ErrorMethods =
  errText :: "error \<Rightarrow> string"
  quicDialUnwraps :: bool

text \<open>One choice of these methods, for evaluating examples: every such text is
  empty, and \<open>*connection.EdgeQuicDialError\<close> unwraps to its cause.\<close>

definition noText :: "error \<Rightarrow> string" where
  "noText e = []"

definition sampleMethods :: ErrorMethods where
  "sampleMethods = \<lparr>errText = noText, quicDialUnwraps = True\<rparr>"

text \<open>\<open>Error()\<close>: dial.go lines 65-67, tunnel.go lines 500-502, \<open>pkg/errors\<close> for a
  wrapped error (message, colon, space, the cause's text).\<close>

primrec Error :: "ErrorMethods \<Rightarrow> error \<Rightarrow> string" where
  "Error M DupConnRegisterTunnelError = errText M DupConnRegisterTunnelError"
| "Error M (ServerRegisterTunnelError c p) = errText M (ServerRegisterTunnelError c p)"
| "Error M (EdgeQuicDialError c) = errText M (EdgeQuicDialError c)"
| "Error M (ReconnectSignal d) = errText M (ReconnectSignal d)"
| "Error M IdleTimeoutError = errText M IdleTimeoutError"
| "Error M (TransportError t) = t"
| "Error M (DialError c) = Error M c"
| "Error M (unrecoverableError e) = Error M e"
| "Error M ContextCanceled = errText M ContextCanceled"
| "Error M (Wrapped msg e) = msg @ '': '' @ Error M e"
| "Error M (ErrorString s) = s"

text \<open>
  The chain that \<open>errors.As\<close> walks: the error, then what \<open>Unwrap\<close> returns, and so on.
  \<open>DialError\<close> and \<open>unrecoverableError\<close> declare no \<open>Unwrap\<close> method (only \<open>Cause\<close>,
  respectively nothing), so the chain stops at them. Of the types declared outside the
  two files, \<open>EdgeQuicDialError\<close> is followed as the parameter says; the others end
  the chain.
\<close>

primrec unwrapChain :: "ErrorMethods \<Rightarrow> error \<Rightarrow> error list" where
  "unwrapChain M DupConnRegisterTunnelError = [DupConnRegisterTunnelError]"
| "unwrapChain M (ServerRegisterTunnelError c p) = [ServerRegisterTunnelError c p]"
| "unwrapChain M (EdgeQuicDialError c) =
     EdgeQuicDialError c # (if quicDialUnwraps M then unwrapChain M c else [])"
| "unwrapChain M (ReconnectSignal d) = [ReconnectSignal d]"
| "unwrapChain M IdleTimeoutError = [IdleTimeoutError]"
| "unwrapChain M (TransportError t) = [TransportError t]"
| "unwrapChain M (DialError c) = [DialError c]"
| "unwrapChain M (unrecoverableError e) = [unrecoverableError e]"
| "unwrapChain M ContextCanceled = [ContextCanceled]"
| "unwrapChain M (Wrapped msg e) = Wrapped msg e # unwrapChain M e"
| "unwrapChain M (ErrorString s) = [ErrorString s]"

fun isIdleTimeoutError :: "error \<Rightarrow> bool" where
  "isIdleTimeoutError IdleTimeoutError = True"
| "isIdleTimeoutError _ = False"

fun isTransportError :: "error \<Rightarrow> bool" where
  "isTransportError (TransportError t) = True"
| "isTransportError _ = False"

text \<open>\<open>errors.As(err, &target)\<close> for a target of the dynamic type recognised by \<open>P\<close>;
  a nil error has no chain.\<close>

definition errors_As :: "ErrorMethods \<Rightarrow> (error \<Rightarrow> bool) \<Rightarrow> error option \<Rightarrow> bool" where
  "errors_As M P err = (case err of None \<Rightarrow> False | Some e \<Rightarrow> list_ex P (unwrapChain M e))"

text \<open>\<open>strings.Contains s sub\<close>.\<close>

fun strings_Contains :: "string \<Rightarrow> string \<Rightarrow> bool" where
  "strings_Contains [] sub = (sub = [])"
| "strings_Contains (c # s) sub = (prefix sub (c # s) \<or> strings_Contains s sub)"

section \<open>The error classifier (tunnel.go, lines 101-167)\<close>

record ConnectivityError =
  reachedMaxRetries :: bool

definition NewConnectivityError :: "bool \<Rightarrow> ConnectivityError" where
  "NewConnectivityError hasReachedMaxRetries = \<lparr>reachedMaxRetries = hasReachedMaxRetries\<rparr>"

definition HasReachedMaxRetries :: "ConnectivityError \<Rightarrow> bool" where
  "HasReachedMaxRetries e = reachedMaxRetries e"

text \<open>\<open>ipAddrFallback\<close>: a Go map from \<open>uint8\<close> to \<open>uint8\<close> and the ceiling. The mutex
  serialises the calls and has no state of its own here.\<close>

record ipAddrFallback =
  retriesByConnIndex :: "8 word \<rightharpoonup> 8 word"
  maxRetries :: "8 word"

definition NewIPAddrFallback :: "8 word \<Rightarrow> ipAddrFallback" where
  "NewIPAddrFallback m = \<lparr>retriesByConnIndex = Map.empty, maxRetries = m\<rparr>"

text \<open>Reading a Go map at a missing key gives the zero value.\<close>

definition retriesOf :: "ipAddrFallback \<Rightarrow> 8 word \<Rightarrow> 8 word" where
  "retriesOf f connIndex = (case retriesByConnIndex f connIndex of None \<Rightarrow> 0 | Some n \<Rightarrow> n)"

text \<open>Lines 158-163, the body of the dial-failure case.\<close>

definition dialFailure ::
  "ipAddrFallback \<Rightarrow> 8 word \<Rightarrow> (bool \<times> ConnectivityError option) \<times> ipAddrFallback" where
  "dialFailure f connIndex =
     (if retriesOf f connIndex \<ge> maxRetries f
      then ((True, Some (NewConnectivityError True)),
            f\<lparr>retriesByConnIndex := (retriesByConnIndex f)(connIndex \<mapsto> 0)\<rparr>)
      else ((True, Some (NewConnectivityError False)),
            f\<lparr>retriesByConnIndex :=
                (retriesByConnIndex f)(connIndex \<mapsto> retriesOf f connIndex + 1)\<rparr>))"

text \<open>The type switch of lines 148-166 is on the dynamic type of \<open>err\<close> itself; it does
  not unwrap.\<close>

fun ShouldGetNewAddress ::
  "ipAddrFallback \<Rightarrow> 8 word \<Rightarrow> error option \<Rightarrow> (bool \<times> ConnectivityError option) \<times> ipAddrFallback"
where
  "ShouldGetNewAddress f connIndex None = ((False, None), f)"
| "ShouldGetNewAddress f connIndex (Some DupConnRegisterTunnelError) = ((True, None), f)"
| "ShouldGetNewAddress f connIndex (Some IdleTimeoutError) = ((True, None), f)"
| "ShouldGetNewAddress f connIndex (Some (DialError c)) = dialFailure f connIndex"
| "ShouldGetNewAddress f connIndex (Some (EdgeQuicDialError c)) = dialFailure f connIndex"
| "ShouldGetNewAddress f connIndex (Some e) = ((False, None), f)"

fun isDialFailure :: "error \<Rightarrow> bool" where
  "isDialFailure (DialError c) = True"
| "isDialFailure (EdgeQuicDialError c) = True"
| "isDialFailure _ = False"

section \<open>Backoff and protocol-fallback state (tunnel.go, lines 287-304)\<close>

text \<open>\<open>connection.Protocol\<close> is an integer type declared outside the two files. The
  sources name its values \<open>HTTP2\<close> and \<open>QUIC\<close> and treat every other value as an
  invalid protocol (line 491).\<close>

datatype Protocol = HTTP2 | QUIC | InvalidProtocol int

text \<open>
  Modelled from the spec: \<open>retry.BackoffHandler\<close> is declared outside the two source
  files. Section 4.3 of the spec gives it a retry count, a retry ceiling, the query
  \<open>ReachedMaxRetries\<close> (the retry ceiling has been reached) and a reset that clears the
  retry count. Its timer and its clock are inputs of \<open>Serve\<close> below.
\<close>

record BackoffHandler =
  retries :: nat
  retryCeiling :: nat

definition ReachedMaxRetries :: "'a BackoffHandler_scheme \<Rightarrow> bool" where
  "ReachedMaxRetries b = (retryCeiling b \<le> retries b)"

definition ResetNow :: "'a BackoffHandler_scheme \<Rightarrow> 'a BackoffHandler_scheme" where
  "ResetNow b = b\<lparr>retries := 0\<rparr>"

text \<open>\<open>protocolFallback\<close> embeds the \<open>BackoffHandler\<close> (line 290): a record extension.\<close>

record protocolFallback = BackoffHandler +
  protocol :: Protocol
  inFallback :: bool

definition reset :: "protocolFallback \<Rightarrow> protocolFallback" where
  "reset pf = (ResetNow pf)\<lparr>inFallback := False\<rparr>"

definition fallback :: "protocolFallback \<Rightarrow> Protocol \<Rightarrow> protocolFallback" where
  "fallback pf fb = (ResetNow pf)\<lparr>protocol := fb, inFallback := True\<rparr>"

text \<open>What the core observes of \<open>connection.ProtocolSelector\<close>: the results of
  \<open>Current()\<close> and of \<open>Fallback()\<close> (a protocol and the flag \<open>hasFallback\<close>).\<close>

record ProtocolSelector =
  Current :: Protocol
  Fallback :: "Protocol \<times> bool"

section \<open>Choosing the next protocol (tunnel.go, lines 306-359)\<close>

definition isQuicBroken :: "ErrorMethods \<Rightarrow> error option \<Rightarrow> bool" where
  "isQuicBroken M cause =
     (if errors_As M isIdleTimeoutError cause then True
      else if errors_As M isTransportError cause \<and>
              (case cause of None \<Rightarrow> False
               | Some e \<Rightarrow> strings_Contains (Error M e) ''operation not permitted'')
      then True
      else False)"

text \<open>The result is the returned flag and the \<open>protocolFallback\<close> the pointer refers to
  afterwards. The log lines are not part of the model.\<close>

definition selectNextProtocol ::
  "ErrorMethods \<Rightarrow> protocolFallback \<Rightarrow> ProtocolSelector \<Rightarrow> error option
     \<Rightarrow> bool \<times> protocolFallback" where
  "selectNextProtocol M protocolBackoff selector cause =
     (let quicBroken = isQuicBroken M cause;
          hasFallback = snd (Fallback selector)
      in if ReachedMaxRetries protocolBackoff \<or> (hasFallback \<and> quicBroken)
         then (let fb = fst (Fallback selector);
                   hasFallback = snd (Fallback selector)
               in if \<not> hasFallback then (False, protocolBackoff)
                  else if protocol protocolBackoff = fb then (False, protocolBackoff)
                  else (True, fallback protocolBackoff fb))
         else if \<not> inFallback protocolBackoff
         then (let current = Current selector
               in if protocol protocolBackoff \<noteq> current
                  then (True, protocolBackoff\<lparr>protocol := current\<rparr>)
                  else (True, protocolBackoff))
         else (True, protocolBackoff))"

section \<open>Serving one connection (tunnel.go, lines 361-427)\<close>

text \<open>What \<open>serveConnection\<close> does when \<open>serveTunnel\<close> calls it: it returns an error
  (or nil) and the flag \<open>recoverable\<close>, or it panics with a value that is an error or
  something else (given by the text that \<open>%v\<close> prints).\<close>

datatype panic_value = PanicError error | PanicOther string

datatype body_result = Returned "error option" bool | Panicked panic_value

text \<open>What the worker does to the outside: sleeping, and the observer's events.\<close>

datatype effect = Sleep int | SendDisconnect "8 word" | SendReconnect "8 word"

text \<open>Modelled from the spec: \<open>ReconnectSignal.DelayBeforeReconnect\<close> is declared
  outside the two source files; the spec (4.4) says it sleeps the carried delay.\<close>

definition DelayBeforeReconnect :: "int \<Rightarrow> effect list" where
  "DelayBeforeReconnect delay = [Sleep delay]"

text \<open>Lines 396-426: the switch on the error that \<open>serveConnection\<close> returned.\<close>

fun serveError :: "error \<Rightarrow> (error option \<times> bool) \<times> effect list" where
  "serveError DupConnRegisterTunnelError = ((Some DupConnRegisterTunnelError, False), [])"
| "serveError (ServerRegisterTunnelError c permanent) = ((c, \<not> permanent), [])"
| "serveError (EdgeQuicDialError c) = ((Some (EdgeQuicDialError c), False), [])"
| "serveError (ReconnectSignal delay) =
     ((Some (ReconnectSignal delay), True), DelayBeforeReconnect delay)"
| "serveError ContextCanceled = ((Some ContextCanceled, False), [])"
| "serveError (unrecoverableError e) = ((Some (unrecoverableError e), False), [])"
| "serveError e = ((Some e, True), [])"

text \<open>Lines 373-383: the deferred recovery. \<open>stack\<close> is the text of \<open>debug.Stack()\<close>.\<close>

definition recovered :: "string \<Rightarrow> panic_value \<Rightarrow> error option \<times> bool" where
  "recovered stack r =
     (let err = (case r of PanicError e \<Rightarrow> e
                 | PanicOther v \<Rightarrow> ErrorString (''ServeTunnel: '' @ v))
      in (Some (Wrapped (''stack trace: '' @ stack) err), True))"

text \<open>\<open>serveTunnel\<close>: the result pair and the effects in the order they happen; the
  deferred \<open>SendDisconnect\<close> runs on every path, before the recovery on a panic.\<close>

definition serveTunnel ::
  "string \<Rightarrow> 8 word \<Rightarrow> body_result \<Rightarrow> (error option \<times> bool) \<times> effect list" where
  "serveTunnel stack connIndex body =
     (case body of
        Panicked r \<Rightarrow> (recovered stack r, [SendDisconnect connIndex])
      | Returned None recoverable \<Rightarrow> ((None, False), [SendDisconnect connIndex])
      | Returned (Some err) recoverable \<Rightarrow>
          (fst (serveError err), snd (serveError err) @ [SendDisconnect connIndex]))"

section \<open>The connected fuse (tunnel.go, lines 702-714)\<close>

text \<open>Modelled from the spec: \<open>booleanFuse\<close> is declared outside the two source files;
  the spec's glossary makes it a one-shot latch, set once. \<open>None\<close> is the unset fuse.\<close>

type_synonym booleanFuse = "bool option"

definition newBooleanFuse :: booleanFuse where
  "newBooleanFuse = None"

definition Fuse :: "bool \<Rightarrow> booleanFuse \<Rightarrow> booleanFuse" where
  "Fuse result f = (case f of None \<Rightarrow> Some result | Some v \<Rightarrow> Some v)"

record connectedFuse =
  fuse :: booleanFuse
  backoff :: protocolFallback

definition Connected :: "connectedFuse \<Rightarrow> connectedFuse" where
  "Connected cf = cf\<lparr>fuse := Fuse True (fuse cf), backoff := reset (backoff cf)\<rparr>"

definition IsConnected :: "connectedFuse \<Rightarrow> bool" where
  "IsConnected cf = (fuse cf = Some True)"

section \<open>The slot worker (tunnel.go, lines 188-285)\<close>

text \<open>
  The signals that can reach a waiting worker, in the order they arrive. The
  \<open>select\<close> of lines 257-282 has a case for the context, for the graceful-shutdown
  channel and for the backoff timer; it has none for \<open>reconnectCh\<close>, so a reconnect
  signal stays in its channel and the worker keeps waiting. \<open>None\<close>: no signal that
  the \<open>select\<close> has a case for ever arrives, and the worker blocks. Signals that are
  ready together stand in the order in which the \<open>select\<close> takes them.
\<close>

datatype signal = CtxDone | GracefulShutdown | BackoffTimerFired | Reconnect int

fun selectWait :: "signal list \<Rightarrow> signal option" where
  "selectWait [] = None"
| "selectWait (Reconnect delay # rest) = selectWait rest"
| "selectWait (s # rest) = Some s"

text \<open>The signals that the \<open>select\<close> of lines 257-282 has a case for.\<close>

fun watched :: "signal \<Rightarrow> bool" where
  "watched (Reconnect delay) = False"
| "watched s = True"

text \<open>
  What one call of \<open>Serve\<close> meets outside itself:
  \<^item> \<open>GetAddr\<close>, \<open>GetDifferentAddr\<close>: the error results of the edge address pool;
  \<^item> \<open>body\<close>: what \<open>serveConnection\<close> does, and \<open>connectedFired\<close>: whether the control
    stream called \<open>Connected()\<close> on the fuse it was given (lines 438-444) meanwhile;
  \<^item> \<open>GetMaxBackoffDuration\<close> and \<open>BackoffTimer\<close>: the two methods of the embedded
    \<open>retry.BackoffHandler\<close> that the worker calls, declared outside the two files: the
    first reads the handler (the duration and the flag \<open>ok\<close>), the second updates it;
  \<^item> \<open>signals\<close>: the signals arriving during the wait; \<open>ctxErr\<close>: \<open>ctx.Err()\<close>;
  \<^item> \<open>HasConnectedWith\<close>: the tunnel state tracker; \<open>selector\<close>: the protocol selector;
  \<^item> \<open>stack\<close>: the text of \<open>debug.Stack()\<close>.
\<close>

record ServeEnv =
  GetAddr :: "error option"
  body :: body_result
  connectedFired :: bool
  GetDifferentAddr :: "error option"
  GetMaxBackoffDuration :: "BackoffHandler \<Rightarrow> int \<times> bool"
  BackoffTimer :: "BackoffHandler \<Rightarrow> BackoffHandler"
  signals :: "signal list"
  ctxErr :: error
  HasConnectedWith :: "Protocol \<Rightarrow> bool"
  selector :: ProtocolSelector
  stack :: string

text \<open>The state a call of \<open>Serve\<close> shares with its caller: the error classifier of the
  \<open>EdgeTunnelServer\<close> and the \<open>protocolFallback\<close> the caller passes by pointer.\<close>

record SlotState =
  edgeAddrHandler :: ipAddrFallback
  pfb :: protocolFallback

text \<open>A method of the embedded handler reads and writes the handler's own fields only.\<close>

definition onHandler ::
  "(BackoffHandler \<Rightarrow> BackoffHandler) \<Rightarrow> protocolFallback \<Rightarrow> protocolFallback" where
  "onHandler m pf =
     (let b = m (BackoffHandler.truncate pf)
      in pf\<lparr>retries := retries b, retryCeiling := retryCeiling b\<rparr>)"

text \<open>Lines 262-281: the timer case of the \<open>select\<close>. Every path returns \<open>err\<close>; what
  differs is the \<open>protocolFallback\<close> left behind.\<close>

definition afterBackoff ::
  "ErrorMethods \<Rightarrow> ServeEnv \<Rightarrow> bool \<Rightarrow> error option \<Rightarrow> protocolFallback \<Rightarrow> protocolFallback" where
  "afterBackoff M env shouldFallbackProtocol err pf =
     (if \<not> shouldFallbackProtocol then pf
      else if HasConnectedWith env (Current (selector env)) then pf
      else snd (selectNextProtocol M pf (selector env) err))"

text \<open>
  Lines 188-255, \<open>Serve\<close> up to the \<open>select\<close>: \<open>Inl\<close> is a return before the wait
  (the returned error and the state left behind), \<open>Inr\<close> is a worker that reaches the
  wait, with \<open>err\<close>, \<open>shouldFallbackProtocol\<close> and the state so far.
\<close>

definition attempt ::
  "ServeEnv \<Rightarrow> 8 word \<Rightarrow> SlotState
     \<Rightarrow> (error option \<times> SlotState) + (error option \<times> bool \<times> SlotState)" where
  "attempt env connIndex s =
     (case GetAddr env of
        Some err \<Rightarrow> Inl (Some err, s)
      | None \<Rightarrow>
          (let cf0 = \<lparr>fuse = newBooleanFuse, backoff = pfb s\<rparr>;
               cf = (if connectedFired env then Connected cf0 else cf0);
               served = fst (serveTunnel (stack env) connIndex (body env));
               err = fst served;
               classified = ShouldGetNewAddress (edgeAddrHandler s) connIndex err;
               shouldRotateEdgeIP = fst (fst classified);
               cErr = snd (fst classified);
               s1 = \<lparr>edgeAddrHandler = snd classified, pfb = backoff cf\<rparr>
           in if shouldRotateEdgeIP \<and> GetDifferentAddr env \<noteq> None
              then Inl (GetDifferentAddr env, s1)
              else
                (let shouldFallbackProtocol =
                       (case (shouldRotateEdgeIP, cErr) of
                          (True, Some connectivityErr) \<Rightarrow> HasReachedMaxRetries connectivityErr
                        | _ \<Rightarrow> snd served)
                 in if \<not> snd (GetMaxBackoffDuration env (BackoffHandler.truncate (pfb s1)))
                    then Inl (err, s1)
                    else Inr (err, shouldFallbackProtocol, s1))))"

text \<open>
  \<open>Serve\<close>: \<open>None\<close> when the worker blocks in the \<open>select\<close> for ever, otherwise the
  returned error and the state left behind. \<open>BackoffTimer()\<close> is evaluated on entering
  the \<open>select\<close>, whichever case is taken.
\<close>

definition Serve ::
  "ErrorMethods \<Rightarrow> ServeEnv \<Rightarrow> 8 word \<Rightarrow> SlotState \<Rightarrow> (error option \<times> SlotState) option" where
  "Serve M env connIndex s =
     (case attempt env connIndex s of
        Inl r \<Rightarrow> Some r
      | Inr (err, shouldFallbackProtocol, s1) \<Rightarrow>
          (let pf2 = onHandler (BackoffTimer env) (pfb s1)
           in case selectWait (signals env) of
                None \<Rightarrow> None
              | Some CtxDone \<Rightarrow> Some (Some (ctxErr env), s1\<lparr>pfb := pf2\<rparr>)
              | Some GracefulShutdown \<Rightarrow> Some (None, s1\<lparr>pfb := pf2\<rparr>)
              | Some sig \<Rightarrow>
                  Some (err, s1\<lparr>pfb := afterBackoff M env shouldFallbackProtocol err pf2\<rparr>)))"

text \<open>
  An example call, for evaluating \<open>Serve\<close>: slot 0 is on QUIC, its dial fails with an
  idle timeout, the classifier's counter for the slot stands at the ceiling 2, the
  backoff handler allows a wait while the retry count is below the ceiling and its
  timer counts one retry, the timer fires, no slot has connected yet, and the selector
  offers HTTP/2 as fallback.
\<close>

definition sampleEnv :: ServeEnv where
  "sampleEnv =
     \<lparr>GetAddr = None,
      body = Returned (Some (EdgeQuicDialError IdleTimeoutError)) True,
      connectedFired = False,
      GetDifferentAddr = None,
      GetMaxBackoffDuration = (\<lambda>b. (2000, retries b < retryCeiling b)),
      BackoffTimer = (\<lambda>b. b\<lparr>retries := Suc (retries b)\<rparr>),
      signals = [BackoffTimerFired],
      ctxErr = ContextCanceled,
      HasConnectedWith = (\<lambda>p. False),
      selector = \<lparr>Current = QUIC, Fallback = (HTTP2, True)\<rparr>,
      stack = ''goroutine 1 [running]''\<rparr>"

definition sampleSlot :: SlotState where
  "sampleSlot =
     \<lparr>edgeAddrHandler = \<lparr>retriesByConnIndex = [0 \<mapsto> 2], maxRetries = 2\<rparr>,
      pfb = \<lparr>retries = 3, retryCeiling = 5, protocol = QUIC, inFallback = False\<rparr>\<rparr>"

section \<open>Dialing the edge (dial.go)\<close>

text \<open>A TLS connection as far as \<open>DialEdge\<close> touches it: its deadline (\<open>None\<close> is the
  zero time, no deadline) and the calls made on it, oldest first.\<close>

datatype connOp = OpSetDeadline "int option" | OpHandshake

record tlsConn =
  deadline :: "int option"
  ops :: "connOp list"

definition tls_Client :: tlsConn where
  "tls_Client = \<lparr>deadline = None, ops = []\<rparr>"

definition SetDeadline :: "int option \<Rightarrow> tlsConn \<Rightarrow> tlsConn" where
  "SetDeadline t c = c\<lparr>deadline := t, ops := ops c @ [OpSetDeadline t]\<rparr>"

definition Handshake :: "tlsConn \<Rightarrow> tlsConn" where
  "Handshake c = c\<lparr>ops := ops c @ [OpHandshake]\<rparr>"

definition newDialError :: "error \<Rightarrow> string \<Rightarrow> error" where
  "newDialError err message = DialError (Wrapped message err)"

text \<open>
  What \<open>DialEdge\<close> meets: whether the proxy dialer has a \<open>DialContext\<close> method, the
  error results of \<open>DialContext\<close> (under the context with the timeout) and of \<open>Dial\<close>,
  the error result of the TLS handshake, and the clock \<open>time.Now()\<close>.
\<close>

record DialEnv =
  hasDialContext :: bool
  DialContext :: "error option"
  Dial :: "error option"
  handshakeErr :: "error option"
  now :: int

definition DialEdge :: "DialEnv \<Rightarrow> int \<Rightarrow> error + tlsConn" where
  "DialEdge env timeout =
     (let err = (if hasDialContext env then DialContext env else Dial env)
      in case err of
           Some e \<Rightarrow> Inl (newDialError e ''DialContext error'')
         | None \<Rightarrow>
             (let tlsEdgeConn = Handshake (SetDeadline (Some (now env + timeout)) tls_Client)
              in case handshakeErr env of
                   Some e \<Rightarrow> Inl (newDialError e ''TLS handshake with edge error'')
                 | None \<Rightarrow> Inr (SetDeadline None tlsEdgeConn)))"

section \<open>Properties of the error classifier\<close>


lemma retriesOf_upd_other:
  "j \<noteq> i \<Longrightarrow> retriesOf (f\<lparr>retriesByConnIndex := (retriesByConnIndex f)(i \<mapsto> v)\<rparr>) j = retriesOf f j"
  by (simp add: retriesOf_def)



lemma ShouldGetNewAddress_not_dial:
  "\<not> isDialFailure e \<Longrightarrow> snd (ShouldGetNewAddress f i (Some e)) = f"
  by (cases e) simp_all



lemma dialFailure_other_slots:
  "j \<noteq> i \<Longrightarrow> retriesOf (snd (dialFailure f i)) j = retriesOf f j"
  by (simp add: dialFailure_def retriesOf_upd_other)




text \<open>
  Claim C10. The per-slot counters change in the dial-failure branch only: a call with
  nil, a duplicate registration, an idle timeout or any other error that is not a dial
  failure leaves the classifier, and so every slot's counter, as it was.
\<close>

theorem counter_only_in_dial_branch:
  assumes "\<And>c. err \<noteq> Some (DialError c)" and "\<And>c. err \<noteq> Some (EdgeQuicDialError c)"
  shows "snd (ShouldGetNewAddress f i err) = f \<and>
         retriesOf (snd (ShouldGetNewAddress f i err)) j = retriesOf f j"
proof (cases err)
  case None
  then show ?thesis by simp
next
  case (Some e)
  with assms have "\<not> isDialFailure e" by (cases e) auto
  with Some show ?thesis by (simp add: ShouldGetNewAddress_not_dial)
qed

theorem counter_only_in_dial_branch_witness:
  "snd (ShouldGetNewAddress \<lparr>retriesByConnIndex = [0 \<mapsto> 1], maxRetries = 2\<rparr> 0
          (Some IdleTimeoutError)) = \<lparr>retriesByConnIndex = [0 \<mapsto> 1], maxRetries = 2\<rparr> \<and>
   retriesOf (snd (ShouldGetNewAddress \<lparr>retriesByConnIndex = [0 \<mapsto> 1], maxRetries = 2\<rparr> 0
          (Some IdleTimeoutError))) 0 = retriesOf \<lparr>retriesByConnIndex = [0 \<mapsto> 1], maxRetries = 2\<rparr> 0"
  using counter_only_in_dial_branch [of "Some IdleTimeoutError"
      "\<lparr>retriesByConnIndex = [0 \<mapsto> 1], maxRetries = 2\<rparr>" 0 0]
  by simp

section \<open>Properties of the protocol picker\<close>

lemma strings_Contains_iff: "strings_Contains s sub = (\<exists>ps ss. s = ps @ sub @ ss)"
proof (induction s)
  case Nil
  then show ?case by auto
next
  case (Cons c s)
  show ?case
  proof
    assume "strings_Contains (c # s) sub"
    then consider "prefix sub (c # s)" | "strings_Contains s sub" by auto
    then show "\<exists>ps ss. c # s = ps @ sub @ ss"
    proof cases
      case 1
      then obtain ss where "c # s = sub @ ss" by (auto simp: prefix_def)
      then have "c # s = [] @ sub @ ss" by simp
      then show ?thesis by blast
    next
      case 2
      with Cons.IH obtain ps ss where "s = ps @ sub @ ss" by blast
      then have "c # s = (c # ps) @ sub @ ss" by simp
      then show ?thesis by blast
    qed
  next
    assume "\<exists>ps ss. c # s = ps @ sub @ ss"
    then obtain ps ss where eq: "c # s = ps @ sub @ ss" by blast
    show "strings_Contains (c # s) sub"
    proof (cases ps)
      case Nil
      with eq have "prefix sub (c # s)" by (simp add: prefix_def)
      then show ?thesis by simp
    next
      case (Cons p ps')
      with eq have "s = ps' @ sub @ ss" by simp
      with Cons.IH have "strings_Contains s sub" by blast
      then show ?thesis by simp
    qed
  qed
qed

lemma list_ex_isIdleTimeoutError: "list_ex isIdleTimeoutError xs = (IdleTimeoutError \<in> set xs)"
proof (induction xs)
  case Nil
  then show ?case by simp
next
  case (Cons x xs)
  then show ?case by (cases x) auto
qed

lemma list_ex_isTransportError: "list_ex isTransportError xs = (\<exists>t. TransportError t \<in> set xs)"
proof (induction xs)
  case Nil
  then show ?case by simp
next
  case (Cons x xs)
  then show ?case by (cases x) auto
qed

lemma isQuicBroken_Some:
  "isQuicBroken M (Some e) =
     (IdleTimeoutError \<in> set (unwrapChain M e) \<or>
      ((\<exists>t. TransportError t \<in> set (unwrapChain M e)) \<and>
       strings_Contains (Error M e) ''operation not permitted''))"
  by (simp add: isQuicBroken_def errors_As_def list_ex_isIdleTimeoutError
      list_ex_isTransportError)

lemma fallback_fields:
  "fallback pf fb = pf\<lparr>retries := 0, protocol := fb, inFallback := True\<rparr>"
  by (simp add: fallback_def ResetNow_def)

lemma selectNextProtocol_cases:
  "selectNextProtocol M pf sel cause =
     (if ReachedMaxRetries pf \<or> (snd (Fallback sel) \<and> isQuicBroken M cause)
      then (if snd (Fallback sel) \<and> protocol pf \<noteq> fst (Fallback sel)
            then (True, pf\<lparr>retries := 0, protocol := fst (Fallback sel), inFallback := True\<rparr>)
            else (False, pf))
      else if inFallback pf then (True, pf)
      else (True, pf\<lparr>protocol := Current sel\<rparr>))"
  by (simp add: selectNextProtocol_def Let_def fallback_fields)

text \<open>
  Claim C1, as amended. When step 1 does not apply (the failure is not QUIC-broken, or
  the selector has no fallback), \<open>selectNextProtocol\<close> does this. With max retries
  reached: if the selector reports a fallback and the slot's protocol differs from it,
  the slot switches to the fallback (\<open>inFallback\<close> set, retries cleared) and the result
  is true; if there is no fallback, or the slot's protocol already is the fallback, the
  result is false and the slot is unchanged. With max retries not reached the result is
  true: a slot that is not in fallback is realigned to the selector's \<open>Current()\<close>, a
  slot in fallback is unchanged.
\<close>

theorem selectNextProtocol_after_step1:
  assumes "\<not> (snd (Fallback sel) \<and> isQuicBroken M cause)"
  shows "selectNextProtocol M pf sel cause =
     (if ReachedMaxRetries pf
      then (if snd (Fallback sel) \<and> protocol pf \<noteq> fst (Fallback sel)
            then (True, pf\<lparr>retries := 0, protocol := fst (Fallback sel), inFallback := True\<rparr>)
            else (False, pf))
      else if inFallback pf then (True, pf)
      else (True, pf\<lparr>protocol := Current sel\<rparr>))"
proof (cases "snd (Fallback sel)")
  case True
  with assms have "\<not> isQuicBroken M cause" by simp
  then show ?thesis by (simp add: selectNextProtocol_cases)
next
  case False
  then show ?thesis by (simp add: selectNextProtocol_cases)
qed

theorem selectNextProtocol_after_step1_witness:
  "selectNextProtocol sampleMethods
     \<lparr>retries = 5, retryCeiling = 5, protocol = QUIC, inFallback = False\<rparr>
     \<lparr>Current = QUIC, Fallback = (HTTP2, True)\<rparr> (Some (ErrorString ''boom''))
   = (True, \<lparr>retries = 0, retryCeiling = 5, protocol = HTTP2, inFallback = True\<rparr>) \<and>
   selectNextProtocol sampleMethods
     \<lparr>retries = 1, retryCeiling = 5, protocol = HTTP2, inFallback = False\<rparr>
     \<lparr>Current = QUIC, Fallback = (HTTP2, False)\<rparr> (Some IdleTimeoutError)
   = (True, \<lparr>retries = 1, retryCeiling = 5, protocol = QUIC, inFallback = False\<rparr>)"
proof -
  have a: "\<not> (snd (Fallback \<lparr>Current = QUIC, Fallback = (HTTP2, True)\<rparr>) \<and>
              isQuicBroken sampleMethods (Some (ErrorString ''boom'')))"
    by (simp add: isQuicBroken_Some)
  have b: "\<not> (snd (Fallback \<lparr>Current = QUIC, Fallback = (HTTP2, False)\<rparr>) \<and>
              isQuicBroken sampleMethods (Some IdleTimeoutError))"
    by simp
  show ?thesis
    using selectNextProtocol_after_step1 [OF a,
        of "\<lparr>retries = 5, retryCeiling = 5, protocol = QUIC, inFallback = False\<rparr>"]
      selectNextProtocol_after_step1 [OF b,
        of "\<lparr>retries = 1, retryCeiling = 5, protocol = HTTP2, inFallback = False\<rparr>"]
    by (simp add: ReachedMaxRetries_def)
qed

text \<open>
  Claim C1 as stated fails on a slot that is already on the fallback protocol. At max
  retries with a fallback reported, the claim's first rule has the slot switch and the
  result true: the code returns false. Below max retries, the claim's second rule has
  the slot give up: the code returns true and keeps retrying on the fallback.
\<close>

theorem selectNextProtocol_not_spec_order:
  "\<not> isQuicBroken sampleMethods (Some (ErrorString ''boom'')) \<and>
   ReachedMaxRetries \<lparr>retries = 5, retryCeiling = 5, protocol = HTTP2, inFallback = True\<rparr> \<and>
   Fallback \<lparr>Current = QUIC, Fallback = (HTTP2, True)\<rparr> = (HTTP2, True) \<and>
   selectNextProtocol sampleMethods
     \<lparr>retries = 5, retryCeiling = 5, protocol = HTTP2, inFallback = True\<rparr>
     \<lparr>Current = QUIC, Fallback = (HTTP2, True)\<rparr> (Some (ErrorString ''boom''))
   = (False, \<lparr>retries = 5, retryCeiling = 5, protocol = HTTP2, inFallback = True\<rparr>) \<and>
   \<not> ReachedMaxRetries \<lparr>retries = 1, retryCeiling = 5, protocol = HTTP2, inFallback = True\<rparr> \<and>
   selectNextProtocol sampleMethods
     \<lparr>retries = 1, retryCeiling = 5, protocol = HTTP2, inFallback = True\<rparr>
     \<lparr>Current = QUIC, Fallback = (HTTP2, True)\<rparr> (Some (ErrorString ''boom''))
   = (True, \<lparr>retries = 1, retryCeiling = 5, protocol = HTTP2, inFallback = True\<rparr>)"
  by (simp add: selectNextProtocol_cases isQuicBroken_Some ReachedMaxRetries_def)

text \<open>
  Claim C3, as amended. For a cause with a QUIC idle timeout in its chain, or with a
  QUIC transport error in its chain and a text that contains "operation not permitted",
  and a selector that reports a fallback: whatever the retry count,
  \<open>selectNextProtocol\<close> switches the slot to the fallback and returns true, unless the
  slot's protocol already is the fallback; then it returns false and the slot is
  unchanged.
\<close>

theorem quic_broken_switches_to_fallback:
  assumes "IdleTimeoutError \<in> set (unwrapChain M e) \<or>
           ((\<exists>t. TransportError t \<in> set (unwrapChain M e)) \<and>
            strings_Contains (Error M e) ''operation not permitted'')"
    and "Fallback sel = (fb, True)"
  shows "isQuicBroken M (Some e) \<and>
         selectNextProtocol M pf sel (Some e) =
           (if protocol pf = fb then (False, pf)
            else (True, pf\<lparr>retries := 0, protocol := fb, inFallback := True\<rparr>))"
  using assms by (simp add: selectNextProtocol_cases isQuicBroken_Some)

theorem quic_broken_switches_to_fallback_witness:
  "selectNextProtocol sampleMethods
     \<lparr>retries = 0, retryCeiling = 5, protocol = QUIC, inFallback = False\<rparr>
     \<lparr>Current = QUIC, Fallback = (HTTP2, True)\<rparr>
     (Some (Wrapped ''dial'' (TransportError ''sendmsg: operation not permitted'')))
   = (True, \<lparr>retries = 0, retryCeiling = 5, protocol = HTTP2, inFallback = True\<rparr>) \<and>
   selectNextProtocol sampleMethods
     \<lparr>retries = 2, retryCeiling = 5, protocol = QUIC, inFallback = False\<rparr>
     \<lparr>Current = QUIC, Fallback = (HTTP2, True)\<rparr>
     (Some (EdgeQuicDialError IdleTimeoutError))
   = (True, \<lparr>retries = 0, retryCeiling = 5, protocol = HTTP2, inFallback = True\<rparr>)"
proof -
  let ?t = "Wrapped ''dial'' (TransportError ''sendmsg: operation not permitted'')"
  let ?i = "EdgeQuicDialError IdleTimeoutError"
  have a: "IdleTimeoutError \<in> set (unwrapChain sampleMethods ?t) \<or>
           ((\<exists>t. TransportError t \<in> set (unwrapChain sampleMethods ?t)) \<and>
            strings_Contains (Error sampleMethods ?t) ''operation not permitted'')"
    by simp
  have b: "IdleTimeoutError \<in> set (unwrapChain sampleMethods ?i) \<or>
           ((\<exists>t. TransportError t \<in> set (unwrapChain sampleMethods ?i)) \<and>
            strings_Contains (Error sampleMethods ?i) ''operation not permitted'')"
    by (simp add: sampleMethods_def)
  have f: "Fallback \<lparr>Current = QUIC, Fallback = (HTTP2, True)\<rparr> = (HTTP2, True)"
    by simp
  show ?thesis
    using quic_broken_switches_to_fallback [OF a f,
        of "\<lparr>retries = 0, retryCeiling = 5, protocol = QUIC, inFallback = False\<rparr>"]
      quic_broken_switches_to_fallback [OF b f,
        of "\<lparr>retries = 2, retryCeiling = 5, protocol = QUIC, inFallback = False\<rparr>"]
    by simp
qed

text \<open>
  Claim C3 as stated fails when the slot's protocol already is the fallback: with an
  idle timeout and a fallback reported, \<open>selectNextProtocol\<close> returns false.
\<close>

theorem quic_broken_on_fallback_gives_up:
  "isQuicBroken sampleMethods (Some IdleTimeoutError) \<and>
   Fallback \<lparr>Current = QUIC, Fallback = (HTTP2, True)\<rparr> = (HTTP2, True) \<and>
   selectNextProtocol sampleMethods
     \<lparr>retries = 0, retryCeiling = 5, protocol = HTTP2, inFallback = True\<rparr>
     \<lparr>Current = QUIC, Fallback = (HTTP2, True)\<rparr> (Some IdleTimeoutError)
   = (False, \<lparr>retries = 0, retryCeiling = 5, protocol = HTTP2, inFallback = True\<rparr>)"
  by (simp add: selectNextProtocol_cases isQuicBroken_Some)

section \<open>Properties of serving one connection\<close>

lemma serveTunnel_Returned:
  "fst (serveTunnel st i (Returned (Some e) r)) = fst (serveError e)"
  by (simp add: serveTunnel_def)

lemma serveError_other:
  assumes "e \<noteq> DupConnRegisterTunnelError" "\<And>c p. e \<noteq> ServerRegisterTunnelError c p"
    "\<And>c. e \<noteq> EdgeQuicDialError c" "\<And>d. e \<noteq> ReconnectSignal d"
    "e \<noteq> ContextCanceled" "\<And>u. e \<noteq> unrecoverableError u"
  shows "serveError e = ((Some e, True), [])"
  using assms by (cases e) auto

text \<open>
  Claim C6. \<open>serveTunnel\<close> maps the error that serving returned to its retryability:
  a duplicate registration is not retryable; a server-side registration error is
  retryable exactly when the server did not mark it permanent; an \<open>EdgeQuicDialError\<close>
  is not retryable; a \<open>ReconnectSignal\<close> sleeps the carried delay and is retryable;
  \<open>context.Canceled\<close> and an \<open>unrecoverableError\<close> are not retryable; every other error
  is retryable.
\<close>

theorem serveTunnel_retryability:
  "fst (serveTunnel st i (Returned (Some DupConnRegisterTunnelError) r))
     = (Some DupConnRegisterTunnelError, False) \<and>
   fst (serveTunnel st i (Returned (Some (ServerRegisterTunnelError c permanent)) r))
     = (c, \<not> permanent) \<and>
   fst (serveTunnel st i (Returned (Some (EdgeQuicDialError q)) r))
     = (Some (EdgeQuicDialError q), False) \<and>
   serveTunnel st i (Returned (Some (ReconnectSignal d)) r)
     = ((Some (ReconnectSignal d), True), [Sleep d, SendDisconnect i]) \<and>
   fst (serveTunnel st i (Returned (Some ContextCanceled) r)) = (Some ContextCanceled, False) \<and>
   fst (serveTunnel st i (Returned (Some (unrecoverableError u)) r))
     = (Some (unrecoverableError u), False) \<and>
   (e \<noteq> DupConnRegisterTunnelError \<and> (\<forall>c p. e \<noteq> ServerRegisterTunnelError c p) \<and>
    (\<forall>c. e \<noteq> EdgeQuicDialError c) \<and> (\<forall>d. e \<noteq> ReconnectSignal d) \<and>
    e \<noteq> ContextCanceled \<and> (\<forall>u. e \<noteq> unrecoverableError u) \<longrightarrow>
      fst (serveTunnel st i (Returned (Some e) r)) = (Some e, True))"
proof (intro conjI impI)
  assume "e \<noteq> DupConnRegisterTunnelError \<and> (\<forall>c p. e \<noteq> ServerRegisterTunnelError c p) \<and>
    (\<forall>c. e \<noteq> EdgeQuicDialError c) \<and> (\<forall>d. e \<noteq> ReconnectSignal d) \<and>
    e \<noteq> ContextCanceled \<and> (\<forall>u. e \<noteq> unrecoverableError u)"
  then have "serveError e = ((Some e, True), [])" by (intro serveError_other) simp_all
  then show "fst (serveTunnel st i (Returned (Some e) r)) = (Some e, True)"
    by (simp add: serveTunnel_Returned)
qed (simp_all add: serveTunnel_def DelayBeforeReconnect_def)

theorem serveTunnel_retryability_witness:
  "fst (serveTunnel ''goroutine 1'' 0
          (Returned (Some (DialError (Wrapped ''DialContext error'' (ErrorString ''refused'')))) True))
     = (Some (DialError (Wrapped ''DialContext error'' (ErrorString ''refused''))), True)"
proof -
  let ?e = "DialError (Wrapped ''DialContext error'' (ErrorString ''refused''))"
  have h: "?e \<noteq> DupConnRegisterTunnelError \<and> (\<forall>c p. ?e \<noteq> ServerRegisterTunnelError c p) \<and>
    (\<forall>c. ?e \<noteq> EdgeQuicDialError c) \<and> (\<forall>d. ?e \<noteq> ReconnectSignal d) \<and>
    ?e \<noteq> ContextCanceled \<and> (\<forall>u. ?e \<noteq> unrecoverableError u)"
    by simp
  show ?thesis
    using h serveTunnel_retryability [of "''goroutine 1''" 0 True _ _ _ _ _ ?e]
    by blast
qed

text \<open>
  Claim C8. A panic inside the serve body is recovered by \<open>serveTunnel\<close> and returned
  as an error wrapped with the stack trace, with the flag \<open>recoverable\<close> true; a panic
  value that is not an error is first turned into one.
\<close>

theorem serveTunnel_recovers_panic:
  "serveTunnel st i (Panicked (PanicError e))
     = ((Some (Wrapped (''stack trace: '' @ st) e), True), [SendDisconnect i]) \<and>
   serveTunnel st i (Panicked (PanicOther v))
     = ((Some (Wrapped (''stack trace: '' @ st) (ErrorString (''ServeTunnel: '' @ v))), True),
        [SendDisconnect i])"
  by (simp add: serveTunnel_def recovered_def)

section \<open>Properties of the edge dialer\<close>

text \<open>
  Claim C9. A connection that \<open>DialEdge\<close> returns had its deadline set before the
  handshake and cleared after it, and has no deadline; every failure of \<open>DialEdge\<close>
  is a \<open>DialError\<close> that wraps the cause, which is the error of the TCP dial or of the
  TLS handshake; and \<open>DialEdge\<close> fails exactly when one of the two does.
\<close>

theorem DialEdge_deadline_and_errors:
  "(\<forall>c. DialEdge env t = Inr c \<longrightarrow>
      deadline c = None \<and>
      ops c = [OpSetDeadline (Some (now env + t)), OpHandshake, OpSetDeadline None]) \<and>
   (\<forall>e. DialEdge env t = Inl e \<longrightarrow>
      (\<exists>msg cause. e = DialError (Wrapped msg cause) \<and>
         ((if hasDialContext env then DialContext env else Dial env) = Some cause \<or>
          (if hasDialContext env then DialContext env else Dial env) = None \<and>
          handshakeErr env = Some cause))) \<and>
   ((\<exists>e. DialEdge env t = Inl e) =
      ((if hasDialContext env then DialContext env else Dial env) \<noteq> None \<or>
       handshakeErr env \<noteq> None))"
  by (auto simp: DialEdge_def Let_def newDialError_def SetDeadline_def Handshake_def
      tls_Client_def split: option.splits)

theorem DialEdge_deadline_and_errors_witness:
  "DialEdge \<lparr>hasDialContext = True, DialContext = None, Dial = None, handshakeErr = None,
             now = 1000\<rparr> 15
     = Inr \<lparr>deadline = None,
            ops = [OpSetDeadline (Some 1015), OpHandshake, OpSetDeadline None]\<rparr> \<and>
   (\<exists>msg. DialEdge \<lparr>hasDialContext = True, DialContext = None, Dial = None,
                    handshakeErr = Some (ErrorString ''bad certificate''), now = 1000\<rparr> 15
     = Inl (DialError (Wrapped msg (ErrorString ''bad certificate''))))"
proof -
  let ?ok = "\<lparr>hasDialContext = True, DialContext = None, Dial = None, handshakeErr = None,
              now = 1000\<rparr>"
  let ?bad = "\<lparr>hasDialContext = True, DialContext = None, Dial = None,
               handshakeErr = Some (ErrorString ''bad certificate''), now = 1000\<rparr>"
  obtain c where c: "DialEdge ?ok 15 = Inr c"
    using DialEdge_deadline_and_errors [of ?ok 15] by (cases "DialEdge ?ok 15") auto
  then have "deadline c = None \<and>
      ops c = [OpSetDeadline (Some 1015), OpHandshake, OpSetDeadline None]"
    using DialEdge_deadline_and_errors [of ?ok 15] by simp
  then have 1: "DialEdge ?ok 15 = Inr \<lparr>deadline = None,
            ops = [OpSetDeadline (Some 1015), OpHandshake, OpSetDeadline None]\<rparr>"
    using c by (cases c) simp
  obtain e where e: "DialEdge ?bad 15 = Inl e"
    using DialEdge_deadline_and_errors [of ?bad 15] by auto
  then obtain msg where "e = DialError (Wrapped msg (ErrorString ''bad certificate''))"
    using DialEdge_deadline_and_errors [of ?bad 15] by auto
  with e have 2: "\<exists>msg. DialEdge ?bad 15
     = Inl (DialError (Wrapped msg (ErrorString ''bad certificate'')))"
    by blast
  show ?thesis using 1 2 by simp
qed

section \<open>Properties of the slot worker\<close>

lemma selectWait_find: "selectWait sigs = find watched sigs"
proof (induction sigs)
  case Nil
  then show ?case by simp
next
  case (Cons x xs)
  then show ?case by (cases x) simp_all
qed

lemma onHandler_protocol [simp]: "protocol (onHandler m pf) = protocol pf"
  by (simp add: onHandler_def Let_def)

lemma onHandler_inFallback [simp]: "inFallback (onHandler m pf) = inFallback pf"
  by (simp add: onHandler_def Let_def)

lemma reset_fields:
  "retries (reset pf) = 0 \<and> \<not> inFallback (reset pf) \<and> protocol (reset pf) = protocol pf \<and>
   retryCeiling (reset pf) = retryCeiling pf"
  by (simp add: reset_def ResetNow_def)

lemma attempt_GetAddr: "GetAddr env = Some e \<Longrightarrow> attempt env i s = Inl (Some e, s)"
  by (simp add: attempt_def)


lemma attempt_GetAddr_None_Inr:
  "attempt env i s = Inr x \<Longrightarrow> GetAddr env = None"
  by (cases "GetAddr env") (simp_all add: attempt_def)

lemma attempt_state:
  assumes "GetAddr env = None"
    and "attempt env i s = Inl (r, s1) \<or> attempt env i s = Inr (err, sfp, s1)"
  shows "s1 = \<lparr>edgeAddrHandler =
                 snd (ShouldGetNewAddress (edgeAddrHandler s) i
                        (fst (fst (serveTunnel (stack env) i (body env))))),
               pfb = (if connectedFired env then reset (pfb s) else pfb s)\<rparr>"
  using assms unfolding attempt_def Let_def
  by (simp add: Connected_def split: if_splits)

lemma attempt_pfb:
  assumes "attempt env i s = Inl (r, s1) \<or> attempt env i s = Inr (err, sfp, s1)"
  shows "pfb s1 = pfb s \<or> pfb s1 = (if connectedFired env then reset (pfb s) else pfb s)"
proof (cases "GetAddr env")
  case None
  from attempt_state [OF None assms] show ?thesis by simp
next
  case (Some e)
  then have "attempt env i s = Inl (Some e, s)" by (rule attempt_GetAddr)
  with assms show ?thesis by auto
qed

lemma attempt_protocol:
  assumes "attempt env i s = Inl (r, s1) \<or> attempt env i s = Inr (err, sfp, s1)"
  shows "protocol (pfb s1) = protocol (pfb s) \<and>
         (inFallback (pfb s1) \<longrightarrow> inFallback (pfb s)) \<and>
         (\<not> connectedFired env \<longrightarrow> inFallback (pfb s1) = inFallback (pfb s))"
  using attempt_pfb [OF assms] by (auto simp: reset_fields split: if_splits)

lemma afterBackoff_suppressed:
  "HasConnectedWith env (Current (selector env)) \<Longrightarrow> afterBackoff M env sfp err pf = pf"
  by (simp add: afterBackoff_def)

lemma Serve_Inr:
  "attempt env i s = Inr (err, sfp, s1) \<Longrightarrow>
   Serve M env i s =
     (case selectWait (signals env) of
        None \<Rightarrow> None
      | Some CtxDone \<Rightarrow> Some (Some (ctxErr env), s1\<lparr>pfb := onHandler (BackoffTimer env) (pfb s1)\<rparr>)
      | Some GracefulShutdown \<Rightarrow> Some (None, s1\<lparr>pfb := onHandler (BackoffTimer env) (pfb s1)\<rparr>)
      | Some sig \<Rightarrow>
          Some (err, s1\<lparr>pfb := afterBackoff M env sfp err
                                  (onHandler (BackoffTimer env) (pfb s1))\<rparr>))"
  by (simp add: Serve_def Let_def)

lemma Serve_suppressed_pfb:
  assumes hc: "HasConnectedWith env (Current (selector env))"
    and a: "attempt env i s = Inr (err, sfp, s1)"
    and sv: "Serve M env i s = Some (r, s')"
  shows "pfb s' = onHandler (BackoffTimer env) (pfb s1)"
proof (cases "selectWait (signals env)")
  case None
  with sv show ?thesis by (simp add: Serve_Inr [OF a])
next
  case (Some sig)
  with sv hc show ?thesis
    by (cases sig) (auto simp: Serve_Inr [OF a] afterBackoff_suppressed)
qed

lemma Serve_suppressed:
  assumes hc: "HasConnectedWith env (Current (selector env))"
    and sv: "Serve M env i s = Some (r, s')"
  shows "protocol (pfb s') = protocol (pfb s) \<and>
         (inFallback (pfb s') \<longrightarrow> inFallback (pfb s)) \<and>
         (\<not> connectedFired env \<longrightarrow> inFallback (pfb s') = inFallback (pfb s))"
proof (cases "attempt env i s")
  case (Inl a)
  with sv have "attempt env i s = Inl (r, s')" by (simp add: Serve_def)
  then have "attempt env i s = Inl (r, s') \<or> attempt env i s = Inr (None, False, s')" by simp
  then show ?thesis by (rule attempt_protocol)
next
  case (Inr b)
  obtain err sfp s1 where "b = (err, sfp, s1)" by (cases b) auto
  with Inr have a: "attempt env i s = Inr (err, sfp, s1)" by simp
  then have "attempt env i s = Inl (None, s1) \<or> attempt env i s = Inr (err, sfp, s1)" by simp
  then have p: "protocol (pfb s1) = protocol (pfb s) \<and>
         (inFallback (pfb s1) \<longrightarrow> inFallback (pfb s)) \<and>
         (\<not> connectedFired env \<longrightarrow> inFallback (pfb s1) = inFallback (pfb s))"
    by (rule attempt_protocol)
  have "pfb s' = onHandler (BackoffTimer env) (pfb s1)"
    using hc a sv by (rule Serve_suppressed_pfb)
  with p show ?thesis by simp
qed

lemma attempt_sample:
  "attempt (sampleEnv\<lparr>signals := sigs, HasConnectedWith := h\<rparr>) 0 sampleSlot =
     Inr (Some (EdgeQuicDialError IdleTimeoutError), True,
          \<lparr>edgeAddrHandler = \<lparr>retriesByConnIndex = [0 \<mapsto> 0], maxRetries = 2\<rparr>,
           pfb = \<lparr>retries = 3, retryCeiling = 5, protocol = QUIC, inFallback = False\<rparr>\<rparr>)"
  by (simp add: attempt_def sampleEnv_def sampleSlot_def Let_def serveTunnel_def
      dialFailure_def retriesOf_def NewConnectivityError_def HasReachedMaxRetries_def
      BackoffHandler.truncate_def)

lemma onHandler_sample:
  "onHandler (BackoffTimer sampleEnv)
     \<lparr>retries = 3, retryCeiling = 5, protocol = QUIC, inFallback = False\<rparr>
   = \<lparr>retries = 4, retryCeiling = 5, protocol = QUIC, inFallback = False\<rparr>"
  by (simp add: onHandler_def sampleEnv_def BackoffHandler.truncate_def)

text \<open>
  Claim C4. When the tunnel state tracker reports \<open>HasConnectedWith\<close> for the protocol
  selector's current protocol, the decision after the backoff leaves the
  \<open>protocolFallback\<close> as it is, and a call of \<open>Serve\<close> that returns leaves the slot's
  protocol unchanged and does not put the slot in fallback: \<open>inFallback\<close> is unchanged,
  or cleared when the slot connected during the call. The next call dials with the
  same protocol (line 229).
\<close>

theorem fallback_suppressed_when_connected:
  assumes "HasConnectedWith env (Current (selector env))"
  shows "afterBackoff M env shouldFallbackProtocol err pf = pf \<and>
         (\<forall>r s'. Serve M env i s = Some (r, s') \<longrightarrow>
            protocol (pfb s') = protocol (pfb s) \<and>
            (inFallback (pfb s') \<longrightarrow> inFallback (pfb s)) \<and>
            (\<not> connectedFired env \<longrightarrow> inFallback (pfb s') = inFallback (pfb s)))"
proof
  show "afterBackoff M env shouldFallbackProtocol err pf = pf"
    using assms by (rule afterBackoff_suppressed)
  show "\<forall>r s'. Serve M env i s = Some (r, s') \<longrightarrow>
            protocol (pfb s') = protocol (pfb s) \<and>
            (inFallback (pfb s') \<longrightarrow> inFallback (pfb s)) \<and>
            (\<not> connectedFired env \<longrightarrow> inFallback (pfb s') = inFallback (pfb s))"
    using Serve_suppressed [OF assms] by blast
qed


theorem fallback_suppressed_when_connected_witness:
  "\<exists>r s'. Serve sampleMethods
            (sampleEnv\<lparr>signals := [BackoffTimerFired], HasConnectedWith := (\<lambda>p. p = QUIC)\<rparr>)
            0 sampleSlot = Some (r, s') \<and>
          protocol (pfb s') = QUIC \<and> \<not> inFallback (pfb s')"
proof -
  let ?env = "sampleEnv\<lparr>signals := [BackoffTimerFired], HasConnectedWith := (\<lambda>p. p = QUIC)\<rparr>"
  have hc: "HasConnectedWith ?env (Current (selector ?env))"
    by (simp add: sampleEnv_def)
  have nf: "\<not> connectedFired ?env"
    by (simp add: sampleEnv_def)
  obtain r s' where sv: "Serve sampleMethods ?env 0 sampleSlot = Some (r, s')"
    by (simp add: Serve_Inr [OF attempt_sample])
  from fallback_suppressed_when_connected [OF hc, of sampleMethods _ _ _ 0 sampleSlot] sv nf
  have "protocol (pfb s') = protocol (pfb sampleSlot) \<and>
        inFallback (pfb s') = inFallback (pfb sampleSlot)"
    by blast
  then have "protocol (pfb s') = QUIC \<and> \<not> inFallback (pfb s')"
    by (simp add: sampleSlot_def)
  with sv show ?thesis by blast
qed

lemma Serve_edgeAddrHandler:
  assumes sv: "Serve M env i s = Some (r, s')" and g: "GetAddr env = None"
  shows "edgeAddrHandler s' =
           snd (ShouldGetNewAddress (edgeAddrHandler s) i
                  (fst (fst (serveTunnel (stack env) i (body env)))))"
proof (cases "attempt env i s")
  case (Inl a)
  with sv have "attempt env i s = Inl (r, s')" by (simp add: Serve_def)
  then have "attempt env i s = Inl (r, s') \<or> attempt env i s = Inr (None, False, s')" by simp
  from attempt_state [OF g this] show ?thesis by simp
next
  case (Inr b)
  obtain err sfp s1 where "b = (err, sfp, s1)" by (cases b) auto
  with Inr have a: "attempt env i s = Inr (err, sfp, s1)" by simp
  then have "attempt env i s = Inl (None, s1) \<or> attempt env i s = Inr (err, sfp, s1)" by simp
  from attempt_state [OF g this]
  have h: "edgeAddrHandler s1 =
           snd (ShouldGetNewAddress (edgeAddrHandler s) i
                  (fst (fst (serveTunnel (stack env) i (body env)))))"
    by simp
  have "edgeAddrHandler s' = edgeAddrHandler s1"
  proof (cases "selectWait (signals env)")
    case None
    with sv show ?thesis by (simp add: Serve_Inr [OF a])
  next
    case (Some sig)
    with sv show ?thesis by (cases sig) (auto simp: Serve_Inr [OF a])
  qed
  with h show ?thesis by simp
qed

lemma Serve_GetAddr_error:
  "GetAddr env = Some e \<Longrightarrow> Serve M env i s = Some (Some e, s)"
  by (simp add: Serve_def attempt_GetAddr)

lemma ShouldGetNewAddress_keeps:
  assumes "\<forall>e. err = Some e \<longrightarrow> \<not> isDialFailure e"
  shows "snd (ShouldGetNewAddress f i err) = f"
proof (cases err)
  case None
  then show ?thesis by simp
next
  case (Some e)
  with assms show ?thesis by (simp add: ShouldGetNewAddress_not_dial)
qed

lemma Serve_keeps_classifier:
  assumes sv: "Serve M env i s = Some (r, s')"
    and nd: "\<forall>e. fst (fst (serveTunnel (stack env) i (body env))) = Some e \<longrightarrow> \<not> isDialFailure e"
  shows "edgeAddrHandler s' = edgeAddrHandler s"
proof (cases "GetAddr env")
  case None
  from Serve_edgeAddrHandler [OF sv None] ShouldGetNewAddress_keeps [OF nd]
  show ?thesis by simp
next
  case (Some e)
  with sv show ?thesis by (simp add: Serve_GetAddr_error)
qed

text \<open>
  Claim C5, as amended. When the control stream's \<open>Connected\<close> callback fires, the fuse
  is set and the backoff is reset: the retry count is 0 and \<open>inFallback\<close> is false. The
  error classifier's per-slot counters are not reset by it: after a call of \<open>Serve\<close> in
  which the slot connected, the classifier is what classifying that call's error left,
  and it is unchanged when that error is not a dial failure.
\<close>

theorem Connected_resets_backoff_only:
  "retries (backoff (Connected cf)) = 0 \<and> \<not> inFallback (backoff (Connected cf)) \<and>
   protocol (backoff (Connected cf)) = protocol (backoff cf) \<and>
   fuse (Connected cf) = Fuse True (fuse cf) \<and>
   (\<forall>r s'. connectedFired env \<and> Serve M env i s = Some (r, s') \<longrightarrow>
      (GetAddr env = None \<longrightarrow>
         edgeAddrHandler s' =
           snd (ShouldGetNewAddress (edgeAddrHandler s) i
                  (fst (fst (serveTunnel (stack env) i (body env)))))) \<and>
      ((\<forall>e. fst (fst (serveTunnel (stack env) i (body env))) = Some e \<longrightarrow> \<not> isDialFailure e) \<longrightarrow>
         edgeAddrHandler s' = edgeAddrHandler s))"
proof (intro conjI allI impI)
  fix r s'
  assume h: "connectedFired env \<and> Serve M env i s = Some (r, s')"
  then have sv: "Serve M env i s = Some (r, s')" by simp
  {
    assume g: "GetAddr env = None"
    show "edgeAddrHandler s' =
           snd (ShouldGetNewAddress (edgeAddrHandler s) i
                  (fst (fst (serveTunnel (stack env) i (body env)))))"
      using sv g by (rule Serve_edgeAddrHandler)
  }
  {
    assume nd: "\<forall>e. fst (fst (serveTunnel (stack env) i (body env))) = Some e \<longrightarrow> \<not> isDialFailure e"
    show "edgeAddrHandler s' = edgeAddrHandler s"
      using sv nd by (rule Serve_keeps_classifier)
  }
qed (simp_all add: Connected_def reset_fields)

lemma Serve_sample_connected:
  "Serve sampleMethods
     (sampleEnv\<lparr>body := Returned (Some (ErrorString ''connection lost'')) False,
                connectedFired := True\<rparr>) 0 sampleSlot
   = Some (Some (ErrorString ''connection lost''),
       \<lparr>edgeAddrHandler = \<lparr>retriesByConnIndex = [0 \<mapsto> 2], maxRetries = 2\<rparr>,
        pfb = \<lparr>retries = 1, retryCeiling = 5, protocol = QUIC, inFallback = False\<rparr>\<rparr>)"
  by (simp add: Serve_def attempt_def sampleEnv_def sampleSlot_def Let_def serveTunnel_def
      Connected_def reset_def ResetNow_def BackoffHandler.truncate_def onHandler_def
      afterBackoff_def selectNextProtocol_def ReachedMaxRetries_def isQuicBroken_def
      errors_As_def)

theorem Connected_resets_backoff_only_witness:
  "\<exists>r s'. Serve sampleMethods
            (sampleEnv\<lparr>body := Returned (Some (ErrorString ''connection lost'')) False,
                       connectedFired := True\<rparr>) 0 sampleSlot = Some (r, s') \<and>
          retries (pfb s') = 1 \<and>
          edgeAddrHandler s' = \<lparr>retriesByConnIndex = [0 \<mapsto> 2], maxRetries = 2\<rparr>"
proof -
  let ?env = "sampleEnv\<lparr>body := Returned (Some (ErrorString ''connection lost'')) False,
                       connectedFired := True\<rparr>"
  let ?s' = "\<lparr>edgeAddrHandler = \<lparr>retriesByConnIndex = [0 \<mapsto> 2], maxRetries = 2\<rparr>,
        pfb = \<lparr>retries = 1, retryCeiling = 5, protocol = QUIC, inFallback = False\<rparr>\<rparr>"
  have sv: "Serve sampleMethods ?env 0 sampleSlot = Some (Some (ErrorString ''connection lost''), ?s')"
    by (rule Serve_sample_connected)
  have c: "connectedFired ?env" by simp
  have nd: "\<forall>e. fst (fst (serveTunnel (stack ?env) 0 (body ?env))) = Some e \<longrightarrow> \<not> isDialFailure e"
    by (simp add: serveTunnel_def)
  have "edgeAddrHandler ?s' = edgeAddrHandler sampleSlot"
    using Connected_resets_backoff_only [of _ ?env sampleMethods 0 sampleSlot] c sv nd by blast
  then have "edgeAddrHandler ?s' = \<lparr>retriesByConnIndex = [0 \<mapsto> 2], maxRetries = 2\<rparr>"
    by (simp add: sampleSlot_def)
  with sv show ?thesis by (intro exI [of _ "Some (ErrorString ''connection lost'')"] exI [of _ ?s']) simp
qed

text \<open>
  Claim C5 as stated fails: slot 0 connects with its rotation counter at 2 (the ceiling)
  and then loses the connection. The retry count was reset (3 before the call, 1 after
  the timer), the rotation counter is still 2, and the next dial failure on the slot
  reports that max retries have been reached.
\<close>

theorem counter_survives_connect:
  "Serve sampleMethods
     (sampleEnv\<lparr>body := Returned (Some (ErrorString ''connection lost'')) False,
                connectedFired := True\<rparr>) 0 sampleSlot
   = Some (Some (ErrorString ''connection lost''),
       \<lparr>edgeAddrHandler = \<lparr>retriesByConnIndex = [0 \<mapsto> 2], maxRetries = 2\<rparr>,
        pfb = \<lparr>retries = 1, retryCeiling = 5, protocol = QUIC, inFallback = False\<rparr>\<rparr>) \<and>
   retriesOf \<lparr>retriesByConnIndex = [0 \<mapsto> 2], maxRetries = 2\<rparr> 0 = 2 \<and>
   fst (ShouldGetNewAddress \<lparr>retriesByConnIndex = [0 \<mapsto> 2], maxRetries = 2\<rparr> 0
          (Some (DialError (Wrapped ''DialContext error'' (ErrorString ''refused'')))))
     = (True, Some (NewConnectivityError True))"
  by (simp add: Serve_sample_connected retriesOf_def dialFailure_def)

text \<open>
  Claim C7, as amended. A worker that reaches the wait blocks until the first signal
  that is the context's cancellation, the graceful shutdown or the backoff timer;
  reconnect signals are passed over. On cancellation it returns the context's error,
  on graceful shutdown it returns nil, in both cases without choosing a protocol; when
  the timer fires it returns the serve error after the decision about the fallback;
  with none of the three it does not return.
\<close>

theorem Serve_wait:
  assumes "attempt env i s = Inr (err, shouldFallbackProtocol, s1)"
  shows "selectWait (signals env) = find watched (signals env) \<and>
    (selectWait (signals env) = None \<longrightarrow> Serve M env i s = None) \<and>
    (selectWait (signals env) = Some CtxDone \<longrightarrow>
       Serve M env i s =
         Some (Some (ctxErr env), s1\<lparr>pfb := onHandler (BackoffTimer env) (pfb s1)\<rparr>)) \<and>
    (selectWait (signals env) = Some GracefulShutdown \<longrightarrow>
       Serve M env i s = Some (None, s1\<lparr>pfb := onHandler (BackoffTimer env) (pfb s1)\<rparr>)) \<and>
    (selectWait (signals env) = Some BackoffTimerFired \<longrightarrow>
       Serve M env i s =
         Some (err, s1\<lparr>pfb := afterBackoff M env shouldFallbackProtocol err
                                 (onHandler (BackoffTimer env) (pfb s1))\<rparr>))"
  by (simp add: Serve_Inr [OF assms] selectWait_find)

theorem Serve_wait_witness:
  "Serve sampleMethods
     (sampleEnv\<lparr>signals := [Reconnect 250000000, CtxDone, BackoffTimerFired],
                HasConnectedWith := (\<lambda>p. False)\<rparr>) 0 sampleSlot
   = Some (Some ContextCanceled,
       \<lparr>edgeAddrHandler = \<lparr>retriesByConnIndex = [0 \<mapsto> 0], maxRetries = 2\<rparr>,
        pfb = \<lparr>retries = 4, retryCeiling = 5, protocol = QUIC, inFallback = False\<rparr>\<rparr>) \<and>
   Serve sampleMethods
     (sampleEnv\<lparr>signals := [GracefulShutdown, BackoffTimerFired],
                HasConnectedWith := (\<lambda>p. False)\<rparr>) 0 sampleSlot
   = Some (None,
       \<lparr>edgeAddrHandler = \<lparr>retriesByConnIndex = [0 \<mapsto> 0], maxRetries = 2\<rparr>,
        pfb = \<lparr>retries = 4, retryCeiling = 5, protocol = QUIC, inFallback = False\<rparr>\<rparr>) \<and>
   Serve sampleMethods
     (sampleEnv\<lparr>signals := [BackoffTimerFired, CtxDone],
                HasConnectedWith := (\<lambda>p. False)\<rparr>) 0 sampleSlot
   = Some (Some (EdgeQuicDialError IdleTimeoutError),
       \<lparr>edgeAddrHandler = \<lparr>retriesByConnIndex = [0 \<mapsto> 0], maxRetries = 2\<rparr>,
        pfb = \<lparr>retries = 0, retryCeiling = 5, protocol = HTTP2, inFallback = True\<rparr>\<rparr>) \<and>
   Serve sampleMethods
     (sampleEnv\<lparr>signals := [], HasConnectedWith := (\<lambda>p. False)\<rparr>) 0 sampleSlot = None"
proof -
  let ?h = "\<lambda>p :: Protocol. False"
  let ?pf = "\<lparr>retries = 4, retryCeiling = 5, protocol = QUIC, inFallback = False\<rparr>"
  have ab: "afterBackoff sampleMethods (sampleEnv\<lparr>signals := sigs, HasConnectedWith := ?h\<rparr>) True
              (Some (EdgeQuicDialError IdleTimeoutError)) ?pf
            = \<lparr>retries = 0, retryCeiling = 5, protocol = HTTP2, inFallback = True\<rparr>" for sigs
    by (simp add: afterBackoff_def sampleEnv_def selectNextProtocol_cases isQuicBroken_Some
        sampleMethods_def ReachedMaxRetries_def)
  have ce: "ctxErr (sampleEnv\<lparr>signals := sigs, HasConnectedWith := ?h\<rparr>) = ContextCanceled" for sigs
    by (simp add: sampleEnv_def)
  show ?thesis
    using
      Serve_wait [OF attempt_sample [of ?h "[Reconnect 250000000, CtxDone, BackoffTimerFired]"], of sampleMethods]
      Serve_wait [OF attempt_sample [of ?h "[GracefulShutdown, BackoffTimerFired]"], of sampleMethods]
      Serve_wait [OF attempt_sample [of ?h "[BackoffTimerFired, CtxDone]"], of sampleMethods]
      Serve_wait [OF attempt_sample [of ?h "[]"], of sampleMethods]
    by (simp add: onHandler_sample ab ce)
qed

text \<open>
  Claim C7 as stated fails: a worker at the wait that receives only a reconnect signal
  stays blocked.
\<close>

theorem reconnect_does_not_end_wait:
  "attempt (sampleEnv\<lparr>signals := [Reconnect 250000000], HasConnectedWith := (\<lambda>p. False)\<rparr>)
     0 sampleSlot
   = Inr (Some (EdgeQuicDialError IdleTimeoutError), True,
          \<lparr>edgeAddrHandler = \<lparr>retriesByConnIndex = [0 \<mapsto> 0], maxRetries = 2\<rparr>,
           pfb = \<lparr>retries = 3, retryCeiling = 5, protocol = QUIC, inFallback = False\<rparr>\<rparr>) \<and>
   selectWait [Reconnect 250000000] = None \<and>
   Serve sampleMethods
     (sampleEnv\<lparr>signals := [Reconnect 250000000], HasConnectedWith := (\<lambda>p. False)\<rparr>)
     0 sampleSlot = None"
  by (simp add: attempt_sample Serve_Inr [OF attempt_sample])

end
